theory Spec2Isabelle
  imports Complex_Main
begin

section \<open>JavaScript values\<close>

text \<open>
  The three components are JavaScript (JSX) functions over literal arrays of objects.
  A JavaScript number is an IEEE double: a finite value, an infinity or NaN. Every finite
  double is a rational, so a finite number is modelled by a \<^typ>\<open>rat\<close>, and a decimal
  literal of the source (\<open>60.2\<close>) by the rational it denotes (\<open>602 / 10\<close>). The
  comparisons the source makes (\<open>rar > 7\<close>) are exact on doubles, and no literal of the
  datasets lies within a rounding error of a threshold it is compared with.
\<close>

datatype number = Fin rat | PosInf | NegInf | NaN

text \<open>The relational operators \<open>>\<close> and \<open>>=\<close> on numbers: false as soon as one side is NaN.\<close>

fun gt :: "number \<Rightarrow> number \<Rightarrow> bool" where
  "gt NaN _ = False"
| "gt _ NaN = False"
| "gt (Fin a) (Fin b) = (b < a)"
| "gt PosInf PosInf = False"
| "gt PosInf _ = True"
| "gt _ PosInf = False"
| "gt NegInf _ = False"
| "gt (Fin a) NegInf = True"

fun ge :: "number \<Rightarrow> number \<Rightarrow> bool" where
  "ge NaN _ = False"
| "ge _ NaN = False"
| "ge (Fin a) (Fin b) = (b \<le> a)"
| "ge PosInf _ = True"
| "ge NegInf NegInf = True"
| "ge _ PosInf = False"
| "ge NegInf _ = False"
| "ge (Fin a) NegInf = True"

text \<open>
  The values that occur in the datasets are numbers and strings; reading a property that
  an object does not have gives \<open>undefined\<close>.
\<close>

datatype js_val = Num number | Str string | Undefined

abbreviation num :: "rat \<Rightarrow> js_val" where
  "num x \<equiv> Num (Fin x)"

text \<open>
  An object literal \<open>{k1: v1, k2: v2}\<close> is the list of its own properties in the order
  written. \<open>get ob k\<close> is the property read \<open>ob.k\<close>: the value written last under
  \<open>k\<close>, and \<open>undefined\<close> when there is none. (Properties inherited from
  \<open>Object.prototype\<close> are not modelled; the source reads none.)
\<close>

type_synonym js_obj = "(string \<times> js_val) list"

definition get :: "js_obj \<Rightarrow> string \<Rightarrow> js_val" where
  "get ob k = (case map_of (rev ob) k of Some v \<Rightarrow> v | None \<Rightarrow> Undefined)"

text \<open>
  \<open>ToNumber\<close>, the conversion that \<open>>\<close> applies to an operand: a number is itself,
  \<open>undefined\<close> is NaN, and a string is parsed by the runtime. The parser is outside the
  repository and is taken as the parameter \<open>s2n\<close>.
\<close>

fun to_number :: "(string \<Rightarrow> number) \<Rightarrow> js_val \<Rightarrow> number" where
  "to_number s2n (Num n) = n"
| "to_number s2n (Str s) = s2n s"
| "to_number s2n Undefined = NaN"

subsection \<open>Exceptions\<close>

text \<open>
  An expression that throws is \<open>Inl\<close> of the error, one that returns is \<open>Inr\<close> of its
  value. \<open>and_then\<close> evaluates one expression after another, \<open>all_ok\<close> a list of them
  from left to right; both stop at the first throw.
\<close>

datatype error = TypeError | RangeError

definition and_then :: "error + 'a \<Rightarrow> ('a \<Rightarrow> error + 'b) \<Rightarrow> error + 'b" where
  "and_then r f = (case r of Inl e \<Rightarrow> Inl e | Inr x \<Rightarrow> f x)"

fun all_ok :: "(error + 'a) list \<Rightarrow> error + 'a list" where
  "all_ok [] = Inr []"
| "all_ok (r # rs) = and_then r (\<lambda>x. and_then (all_ok rs) (\<lambda>xs. Inr (x # xs)))"

subsection \<open>Rendered text and elements\<close>

text \<open>
  A piece of rendered text is a string of the source (\<open>Lit\<close>), a value interpolated
  into a template literal or a JSX expression (\<open>Val\<close>), or the result of
  \<open>x.toFixed(d)\<close> (\<open>Fixed x d\<close>). The conversion of a number to its digits is the
  runtime's and is left symbolic.

  \<open>v.toFixed(d)\<close> throws a TypeError when \<open>v\<close> is not a number (\<open>undefined\<close> has no
  properties, a string has no method \<open>toFixed\<close>) and a RangeError when \<open>d\<close> is above 100.
\<close>

datatype fragment = Lit string | Val js_val | Fixed number nat

definition toFixed :: "js_val \<Rightarrow> nat \<Rightarrow> error + fragment" where
  "toFixed v d =
     (case v of
        Num n \<Rightarrow> if d \<le> 100 then Inr (Fixed n d) else Inl RangeError
      | Str s \<Rightarrow> Inl TypeError
      | Undefined \<Rightarrow> Inl TypeError)"

text \<open>
  A JSX element is its tag, its attributes and its children. The attributes kept are
  those that bind data or are computed (\<open>data\<close>, \<open>dataKey\<close>, \<open>name\<close>, \<open>key\<close>, colours,
  the row class); the constant layout attributes (\<open>className\<close>, \<open>margin\<close>, axis labels)
  are left out, and an element that holds only constant text (a heading, a paragraph,
  the list of key findings, the table head) is written without its content. An attribute
  whose value is a function or a component (the tooltip's \<open>formatter\<close>,
  \<open>labelFormatter\<close> and \<open>content\<close>) is a definition of its own below. \<open>Null\<close> is a
  component's \<open>return null\<close>.
\<close>

datatype attr = StrAttr string | TextAttr "fragment list" | DataAttr "js_obj list"

datatype element =
    Element (tag: string) (attrs: "(string \<times> attr) list") (children: "element list")
  | Text "fragment list"
  | Null

section \<open>The heap: arrays and objects\<close>

text \<open>
  Arrays and objects are mutable and shared by reference in JavaScript. The heap is the
  list of the cells allocated so far; a reference is an index into it. An object cell
  holds the object's properties, an array cell the references of its elements.
  Allocation appends a cell; the source has no other operation that writes (no
  assignment to a property or an index, no \<open>push\<close>, \<open>sort\<close> or \<open>splice\<close>).
\<close>

type_synonym ref = nat

datatype cell = Object js_obj | Array "ref list"

type_synonym heap = "cell list"

definition alloc :: "cell \<Rightarrow> heap \<Rightarrow> ref \<times> heap" where
  "alloc c h = (length h, h @ [c])"

text \<open>An array literal of object literals allocates the objects in order, then the array.\<close>

fun alloc_objects :: "js_obj list \<Rightarrow> heap \<Rightarrow> ref list \<times> heap" where
  "alloc_objects [] h = ([], h)"
| "alloc_objects (ob # obs) h =
     (let (r, h1) = alloc (Object ob) h;
          (rs, h2) = alloc_objects obs h1
      in (r # rs, h2))"

definition array_literal :: "js_obj list \<Rightarrow> heap \<Rightarrow> ref \<times> heap" where
  "array_literal obs h = (let (rs, h1) = alloc_objects obs h in alloc (Array rs) h1)"

text \<open>
  Reads. A reference held by the program always points at a cell of the right kind; the
  other cases of these total functions are never reached and give an empty result.
  \<open>rows h a\<close> is what a reader of the array \<open>a\<close> sees: the properties of its elements.
\<close>

definition elems :: "heap \<Rightarrow> ref \<Rightarrow> ref list" where
  "elems h a = (if a < length h then (case h ! a of Array rs \<Rightarrow> rs | Object ob \<Rightarrow> []) else [])"

definition properties :: "heap \<Rightarrow> ref \<Rightarrow> js_obj" where
  "properties h r = (if r < length h then (case h ! r of Object ob \<Rightarrow> ob | Array rs \<Rightarrow> []) else [])"

definition rows :: "heap \<Rightarrow> ref \<Rightarrow> js_obj list" where
  "rows h a = map (properties h) (elems h a)"

text \<open>
  \<open>[...a, ...b, ...c, ...d]\<close> allocates a new array holding the elements of the spread
  arrays, in order. The elements are shared with the sources, not copied.
\<close>

definition spread :: "ref list \<Rightarrow> heap \<Rightarrow> ref \<times> heap" where
  "spread as h = alloc (Array (concat (map (elems h) as))) h"

section \<open>GenreVisualization\<close>

text \<open>The literal \<open>data\<close> of \<open>genre-visualization.jsx\<close>.\<close>

definition genre_data :: "js_obj list" where
  "genre_data =
     [[(''year'', num 2015), (''horror'', num 60.2), (''scifi'', num 72.6), (''action'', num 93.9), (''drama'', num 71.8), (''comedy'', num 68.4)],
      [(''year'', num 2016), (''horror'', num 68.7), (''scifi'', num 75.2), (''action'', num 95.3), (''drama'', num 70.9), (''comedy'', num 67.9)],
      [(''year'', num 2017), (''horror'', num 59.3), (''scifi'', num 79.4), (''action'', num 94.0), (''drama'', num 69.6), (''comedy'', num 68.1)],
      [(''year'', num 2018), (''horror'', num 71.2), (''scifi'', num 83.1), (''action'', num 90.8), (''drama'', num 68.7), (''comedy'', num 67.4)],
      [(''year'', num 2019), (''horror'', num 63.8), (''scifi'', num 84.8), (''action'', num 92.7), (''drama'', num 68.3), (''comedy'', num 68.6)],
      [(''year'', num 2020), (''horror'', num 69.5), (''scifi'', num 87.4), (''action'', num 88.9), (''drama'', num 67.2), (''comedy'', num 67.8)],
      [(''year'', num 2021), (''horror'', num 58.9), (''scifi'', num 90.6), (''action'', num 91.3), (''drama'', num 66.8), (''comedy'', num 68.3)],
      [(''year'', num 2022), (''horror'', num 70.6), (''scifi'', num 92.7), (''action'', num 93.5), (''drama'', num 65.9), (''comedy'', num 67.7)],
      [(''year'', num 2023), (''horror'', num 62.4), (''scifi'', num 95.3), (''action'', num 94.8), (''drama'', num 64.7), (''comedy'', num 68.2)],
      [(''year'', num 2024), (''horror'', num 68.1), (''scifi'', num 98.6), (''action'', num 96.2), (''drama'', num 63.9), (''comedy'', num 67.5)]]"

text \<open>One \<open><Line dataKey=... name=... stroke=... />\<close> of the chart.\<close>

definition line :: "string \<Rightarrow> string \<Rightarrow> string \<Rightarrow> element" where
  "line dataKey name stroke =
     Element ''Line''
       [(''dataKey'', StrAttr dataKey), (''name'', StrAttr name), (''stroke'', StrAttr stroke)] []"

text \<open>The returned JSX, as a function of the rows read through \<open>data\<close>.\<close>

definition genre_view :: "js_obj list \<Rightarrow> element" where
  "genre_view data =
     Element ''div'' []
       [Element ''h2'' [] [],
        Element ''p'' [] [],
        Element ''div'' []
          [Element ''ResponsiveContainer'' []
             [Element ''LineChart'' [(''data'', DataAttr data)]
                [Element ''CartesianGrid'' [] [],
                 Element ''XAxis'' [(''dataKey'', StrAttr ''year'')] [],
                 Element ''YAxis'' [] [],
                 Element ''Tooltip'' [] [],
                 Element ''Legend'' [] [],
                 line ''horror'' ''Horror'' ''#d32f2f'',
                 line ''scifi'' ''Science Fiction'' ''#2e7d32'',
                 line ''action'' ''Action'' ''#1976d2'',
                 line ''drama'' ''Drama'' ''#7b1fa2'',
                 line ''comedy'' ''Comedy'' ''#ff9800'']]],
        Element ''div'' [] []]"

definition GenreVisualization :: "heap \<Rightarrow> (error + element) \<times> heap" where
  "GenreVisualization h0 =
     (let (data, h1) = array_literal genre_data h0
      in (Inr (genre_view (rows h1 data)), h1))"

section \<open>BudgetEfficiencyAnalysis\<close>

text \<open>The four literal arrays of \<open>budget-efficiency.jsx\<close>.\<close>

definition horrorData :: "js_obj list" where
  "horrorData =
     [[(''budget'', num 5.6), (''revenue'', num 19.3), (''efficiency'', num 3.45), (''genre'', Str ''Horror'')],
      [(''budget'', num 8.2), (''revenue'', num 29.1), (''efficiency'', num 3.55), (''genre'', Str ''Horror'')],
      [(''budget'', num 12.4), (''revenue'', num 52.1), (''efficiency'', num 4.20), (''genre'', Str ''Horror'')],
      [(''budget'', num 7.3), (''revenue'', num 17.5), (''efficiency'', num 2.40), (''genre'', Str ''Horror'')],
      [(''budget'', num 10.1), (''revenue'', num 35.3), (''efficiency'', num 3.49), (''genre'', Str ''Horror'')],
      [(''budget'', num 4.8), (''revenue'', num 19.2), (''efficiency'', num 4.00), (''genre'', Str ''Horror'')],
      [(''budget'', num 18.5), (''revenue'', num 45.3), (''efficiency'', num 2.45), (''genre'', Str ''Horror'')],
      [(''budget'', num 9.7), (''revenue'', num 28.2), (''efficiency'', num 2.91), (''genre'', Str ''Horror'')],
      [(''budget'', num 14.3), (''revenue'', num 42.9), (''efficiency'', num 3.00), (''genre'', Str ''Horror'')],
      [(''budget'', num 6.5), (''revenue'', num 22.8), (''efficiency'', num 3.51), (''genre'', Str ''Horror'')]]"

definition scifiData :: "js_obj list" where
  "scifiData =
     [[(''budget'', num 120.5), (''revenue'', num 187.9), (''efficiency'', num 1.56), (''genre'', Str ''Science Fiction'')],
      [(''budget'', num 155.3), (''revenue'', num 210.2), (''efficiency'', num 1.35), (''genre'', Str ''Science Fiction'')],
      [(''budget'', num 183.7), (''revenue'', num 312.3), (''efficiency'', num 1.70), (''genre'', Str ''Science Fiction'')],
      [(''budget'', num 92.8), (''revenue'', num 139.2), (''efficiency'', num 1.50), (''genre'', Str ''Science Fiction'')],
      [(''budget'', num 146.2), (''revenue'', num 255.9), (''efficiency'', num 1.75), (''genre'', Str ''Science Fiction'')],
      [(''budget'', num 175.4), (''revenue'', num 245.6), (''efficiency'', num 1.40), (''genre'', Str ''Science Fiction'')],
      [(''budget'', num 87.5), (''revenue'', num 131.2), (''efficiency'', num 1.50), (''genre'', Str ''Science Fiction'')],
      [(''budget'', num 134.8), (''revenue'', num 242.6), (''efficiency'', num 1.80), (''genre'', Str ''Science Fiction'')],
      [(''budget'', num 167.2), (''revenue'', num 317.7), (''efficiency'', num 1.90), (''genre'', Str ''Science Fiction'')],
      [(''budget'', num 105.1), (''revenue'', num 147.1), (''efficiency'', num 1.40), (''genre'', Str ''Science Fiction'')]]"

definition actionData :: "js_obj list" where
  "actionData =
     [[(''budget'', num 85.3), (''revenue'', num 195.3), (''efficiency'', num 2.29), (''genre'', Str ''Action'')],
      [(''budget'', num 112.7), (''revenue'', num 293.0), (''efficiency'', num 2.60), (''genre'', Str ''Action'')],
      [(''budget'', num 127.4), (''revenue'', num 280.3), (''efficiency'', num 2.20), (''genre'', Str ''Action'')],
      [(''budget'', num 94.6), (''revenue'', num 264.9), (''efficiency'', num 2.80), (''genre'', Str ''Action'')],
      [(''budget'', num 143.8), (''revenue'', num 359.5), (''efficiency'', num 2.50), (''genre'', Str ''Action'')],
      [(''budget'', num 76.3), (''revenue'', num 183.1), (''efficiency'', num 2.40), (''genre'', Str ''Action'')],
      [(''budget'', num 105.9), (''revenue'', num 212.9), (''efficiency'', num 2.01), (''genre'', Str ''Action'')],
      [(''budget'', num 135.6), (''revenue'', num 326.8), (''efficiency'', num 2.41), (''genre'', Str ''Action'')],
      [(''budget'', num 88.7), (''revenue'', num 230.6), (''efficiency'', num 2.60), (''genre'', Str ''Action'')],
      [(''budget'', num 118.3), (''revenue'', num 295.8), (''efficiency'', num 2.50), (''genre'', Str ''Action'')]]"

definition dramaData :: "js_obj list" where
  "dramaData =
     [[(''budget'', num 35.6), (''revenue'', num 64.1), (''efficiency'', num 1.80), (''genre'', Str ''Drama'')],
      [(''budget'', num 28.3), (''revenue'', num 59.4), (''efficiency'', num 2.10), (''genre'', Str ''Drama'')],
      [(''budget'', num 42.7), (''revenue'', num 72.6), (''efficiency'', num 1.70), (''genre'', Str ''Drama'')],
      [(''budget'', num 15.4), (''revenue'', num 32.3), (''efficiency'', num 2.10), (''genre'', Str ''Drama'')],
      [(''budget'', num 24.8), (''revenue'', num 49.6), (''efficiency'', num 2.00), (''genre'', Str ''Drama'')],
      [(''budget'', num 38.5), (''revenue'', num 65.5), (''efficiency'', num 1.70), (''genre'', Str ''Drama'')],
      [(''budget'', num 19.6), (''revenue'', num 35.3), (''efficiency'', num 1.80), (''genre'', Str ''Drama'')],
      [(''budget'', num 52.3), (''revenue'', num 99.4), (''efficiency'', num 1.90), (''genre'', Str ''Drama'')],
      [(''budget'', num 33.7), (''revenue'', num 60.7), (''efficiency'', num 1.80), (''genre'', Str ''Drama'')],
      [(''budget'', num 47.1), (''revenue'', num 85.2), (''efficiency'', num 1.81), (''genre'', Str ''Drama'')]]"

text \<open>
  \<open>genreStats\<close>, commented in the source as the average efficiency by genre, and the
  read \<open>genreStats[k]\<close> with a computed key. A key that is not a string is converted
  to one first (\<open>undefined\<close>, or the digits of a number), and no such string is a
  property of \<open>genreStats\<close>.
\<close>

definition genreStats :: js_obj where
  "genreStats =
     [(''Horror'', num 3.29),
      (''Science Fiction'', num 1.60),
      (''Action'', num 2.46),
      (''Drama'', num 1.87)]"

definition genreStats_at :: "js_val \<Rightarrow> js_val" where
  "genreStats_at k = (case k of Str s \<Rightarrow> get genreStats s | Num n \<Rightarrow> Undefined | Undefined \<Rightarrow> Undefined)"

text \<open>
  \<open>CustomTooltip({active, payload})\<close> is called by the chart library. \<open>active\<close> is
  its truth value; \<open>payload\<close> is \<open>None\<close> when undefined and otherwise the array of
  tooltip items, each given by its property \<open>payload\<close> (the hovered row, \<open>None\<close> when
  the item has none). The guard is \<open>active && payload && payload.length\<close>; behind it,
  \<open>payload[0].payload\<close> is read, and a property read on \<open>undefined\<close> throws.
\<close>

definition CustomTooltip :: "bool \<Rightarrow> js_obj option list option \<Rightarrow> error + element" where
  "CustomTooltip active payload =
     (case payload of
        Some (item # items) \<Rightarrow>
          if active then
            (case item of
               None \<Rightarrow> Inl TypeError
             | Some data \<Rightarrow>
                 and_then (toFixed (get data ''budget'') 1) (\<lambda>budget.
                 and_then (toFixed (get data ''revenue'') 1) (\<lambda>revenue.
                 and_then (toFixed (get data ''efficiency'') 2) (\<lambda>efficiency.
                   Inr (Element ''div'' []
                     [Element ''p'' [] [Text [Val (get data ''genre'')]],
                      Element ''p'' [] [Text [Lit ''Budget: $'', budget, Lit ''M'']],
                      Element ''p'' [] [Text [Lit ''Revenue: $'', revenue, Lit ''M'']],
                      Element ''p'' [] [Text [Lit ''Efficiency: '', efficiency, Lit ''x'']]])))))
          else Inr Null
      | Some [] \<Rightarrow> Inr Null
      | None \<Rightarrow> Inr Null)"

text \<open>
  \<open>renderScatter(data, color)\<close> reads \<open>data[0].genre\<close>: on an empty array \<open>data[0]\<close>
  is \<open>undefined\<close> and the property read throws a TypeError.
\<close>

definition renderScatter :: "js_obj list \<Rightarrow> string \<Rightarrow> error + element" where
  "renderScatter data color =
     (case data of
        [] \<Rightarrow> Inl TypeError
      | d0 # ds \<Rightarrow>
          Inr (Element ''Scatter''
            [(''name'', TextAttr [Val (get d0 ''genre''), Lit '' (avg '',
                           Val (genreStats_at (get d0 ''genre'')), Lit ''x)'']),
             (''data'', DataAttr data),
             (''fill'', StrAttr color),
             (''line.stroke'', StrAttr color),
             (''lineType'', StrAttr ''fitting'')] []))"

text \<open>The returned JSX, as a function of the rows read through the four arrays.\<close>

definition budget_view ::
  "js_obj list \<Rightarrow> js_obj list \<Rightarrow> js_obj list \<Rightarrow> js_obj list \<Rightarrow> error + element" where
  "budget_view horror scifi action drama =
     and_then (all_ok
        [renderScatter horror ''#d32f2f'',
         renderScatter scifi ''#2e7d32'',
         renderScatter action ''#1976d2'',
         renderScatter drama ''#7b1fa2'']) (\<lambda>scatters.
       Inr (Element ''div'' []
         [Element ''h2'' [] [],
          Element ''p'' [] [],
          Element ''div'' []
            [Element ''ResponsiveContainer'' []
               [Element ''ScatterChart'' []
                  ([Element ''CartesianGrid'' [] [],
                    Element ''XAxis''
                      [(''dataKey'', StrAttr ''budget''), (''name'', StrAttr ''Budget'')] [],
                    Element ''YAxis''
                      [(''dataKey'', StrAttr ''revenue''), (''name'', StrAttr ''Revenue'')] [],
                    Element ''ZAxis''
                      [(''dataKey'', StrAttr ''efficiency''), (''name'', StrAttr ''Efficiency'')] [],
                    Element ''Tooltip'' [] [],
                    Element ''Legend'' [] []] @ scatters)]],
          Element ''div'' [] []]))"

text \<open>
  The body of the component: the four array literals, \<open>combinedData\<close> (declared and not
  used again), then the JSX. \<open>budget_sources\<close> and \<open>budget_arrays\<close> return the
  references bound to the \<open>const\<close> names together with the heap.
\<close>

record budget_env =
  horror_ref :: ref
  scifi_ref :: ref
  action_ref :: ref
  drama_ref :: ref
  combined_ref :: ref

definition budget_sources :: "heap \<Rightarrow> (ref \<times> ref \<times> ref \<times> ref) \<times> heap" where
  "budget_sources h0 =
     (let (hr, h1) = array_literal horrorData h0;
          (sr, h2) = array_literal scifiData h1;
          (ar, h3) = array_literal actionData h2;
          (dr, h4) = array_literal dramaData h3
      in ((hr, sr, ar, dr), h4))"

definition budget_arrays :: "heap \<Rightarrow> budget_env \<times> heap" where
  "budget_arrays h0 =
     (let ((hr, sr, ar, dr), h4) = budget_sources h0;
          (cr, h5) = spread [hr, sr, ar, dr] h4
      in (\<lparr>horror_ref = hr, scifi_ref = sr, action_ref = ar, drama_ref = dr,
           combined_ref = cr\<rparr>, h5))"

definition BudgetEfficiencyAnalysis :: "heap \<Rightarrow> (error + element) \<times> heap" where
  "BudgetEfficiencyAnalysis h0 =
     (let (env, h5) = budget_arrays h0
      in (budget_view (rows h5 (horror_ref env)) (rows h5 (scifi_ref env))
            (rows h5 (action_ref env)) (rows h5 (drama_ref env)), h5))"

section \<open>StudioPerformance\<close>

text \<open>The literal \<open>data\<close> of the studio component.\<close>

definition studio_data :: "js_obj list" where
  "studio_data =
     [[(''studio'', Str ''Paramount''), (''riskAdjustedReturn'', num 8.31), (''profitRatio'', num 3.82), (''risk'', num 0.46), (''genreDiversity'', num 0.91)],
      [(''studio'', Str ''Universal Pictures''), (''riskAdjustedReturn'', num 7.37), (''profitRatio'', num 2.04), (''risk'', num 0.28), (''genreDiversity'', num 0.81)],
      [(''studio'', Str ''Walt Disney Pictures''), (''riskAdjustedReturn'', num 6.22), (''profitRatio'', num 3.41), (''risk'', num 0.55), (''genreDiversity'', num 0.57)],
      [(''studio'', Str ''A24''), (''riskAdjustedReturn'', num 5.36), (''profitRatio'', num 3.25), (''risk'', num 0.61), (''genreDiversity'', num 0.94)],
      [(''studio'', Str ''Marvel Studios''), (''riskAdjustedReturn'', num 4.80), (''profitRatio'', num 1.27), (''risk'', num 0.26), (''genreDiversity'', num 0.38)],
      [(''studio'', Str ''Blumhouse Productions''), (''riskAdjustedReturn'', num 4.37), (''profitRatio'', num 3.45), (''risk'', num 0.79), (''genreDiversity'', num 0.62)]]"

definition getColorByRAR :: "number \<Rightarrow> string" where
  "getColorByRAR rar =
     (if gt rar (Fin 7) then ''#1a237e''
      else if gt rar (Fin 5) then ''#283593''
      else if gt rar (Fin 4) then ''#3949ab''
      else ''#5c6bc0'')"

text \<open>
  The tooltip's \<open>formatter(value, name, props)\<close> and \<open>labelFormatter(label)\<close>, called
  by the chart library.
\<close>

definition formatter :: "js_val \<Rightarrow> string \<Rightarrow> error + fragment \<times> string" where
  "formatter v name =
     (if name = ''riskAdjustedReturn''
      then and_then (toFixed v 2) (\<lambda>f. Inr (f, ''Risk-Adjusted Return''))
      else Inr (Val v, name))"

definition labelFormatter :: "js_val \<Rightarrow> fragment list" where
  "labelFormatter label = [Lit ''Studio: '', Val label]"

text \<open>
  The two callbacks of \<open>data.map\<close>. The first gives the \<open>Cell\<close> of a row; the
  comparisons of \<open>getColorByRAR\<close> convert the value read to a number. The second gives
  the table row; each \<open>toFixed\<close> can throw.
\<close>

definition cell_of :: "(string \<Rightarrow> number) \<Rightarrow> js_obj \<Rightarrow> nat \<Rightarrow> element" where
  "cell_of s2n entry index =
     Element ''Cell''
       [(''key'', TextAttr [Lit ''cell-'', Val (num (of_nat index))]),
        (''fill'', StrAttr (getColorByRAR (to_number s2n (get entry ''riskAdjustedReturn''))))] []"

definition table_row :: "js_obj \<Rightarrow> nat \<Rightarrow> error + element" where
  "table_row studio index =
     and_then (toFixed (get studio ''profitRatio'') 2) (\<lambda>profitRatio.
     and_then (toFixed (get studio ''risk'') 2) (\<lambda>risk.
     and_then (toFixed (get studio ''genreDiversity'') 2) (\<lambda>genreDiversity.
       Inr (Element ''tr''
         [(''key'', TextAttr [Val (num (of_nat index))]),
          (''className'', StrAttr (if index mod 2 = 0 then ''bg-gray-50'' else ''bg-white''))]
         [Element ''td'' [] [Text [Val (get studio ''studio'')]],
          Element ''td'' [] [Text [profitRatio, Lit ''x'']],
          Element ''td'' [] [Text [risk]],
          Element ''td'' [] [Text [genreDiversity]]]))))"

text \<open>\<open>data.map(f)\<close> calls \<open>f(entry, index)\<close> on each element in order.\<close>

definition map_index :: "('a \<Rightarrow> nat \<Rightarrow> 'b) \<Rightarrow> 'a list \<Rightarrow> 'b list" where
  "map_index f xs = map (\<lambda>(x, i). f x i) (zip xs [0..<length xs])"

definition studio_view :: "(string \<Rightarrow> number) \<Rightarrow> js_obj list \<Rightarrow> error + element" where
  "studio_view s2n data =
     (let cells = map_index (cell_of s2n) data
      in and_then (all_ok (map_index table_row data)) (\<lambda>trs.
           Inr (Element ''div'' []
             [Element ''h2'' [] [],
              Element ''p'' [] [],
              Element ''div'' []
                [Element ''ResponsiveContainer'' []
                   [Element ''BarChart'' [(''data'', DataAttr data)]
                      [Element ''CartesianGrid'' [] [],
                       Element ''XAxis'' [(''dataKey'', StrAttr ''studio'')] [],
                       Element ''YAxis'' [] [],
                       Element ''Tooltip'' [] [],
                       Element ''Legend'' [] [],
                       Element ''Bar''
                         [(''dataKey'', StrAttr ''riskAdjustedReturn''),
                          (''fill'', StrAttr ''#8884d8''),
                          (''name'', StrAttr ''Risk-Adjusted Return'')] cells]]],
              Element ''div'' []
                [Element ''h3'' [] [],
                 Element ''div'' []
                   [Element ''table'' []
                      [Element ''thead'' [] [],
                       Element ''tbody'' [] trs]]],
              Element ''div'' [] []])))"

definition StudioPerformance :: "(string \<Rightarrow> number) \<Rightarrow> heap \<Rightarrow> (error + element) \<times> heap" where
  "StudioPerformance s2n h0 =
     (let (data, h1) = array_literal studio_data h0
      in (studio_view s2n (rows h1 data), h1))"

section \<open>Rendering the components in any order\<close>

datatype component = Genre | Budget | Studio

fun render :: "(string \<Rightarrow> number) \<Rightarrow> component \<Rightarrow> heap \<Rightarrow> (error + element) \<times> heap" where
  "render s2n Genre h = GenreVisualization h"
| "render s2n Budget h = BudgetEfficiencyAnalysis h"
| "render s2n Studio h = StudioPerformance s2n h"

text \<open>A sequence of renders on one heap, each starting where the one before stopped.\<close>

fun run :: "(string \<Rightarrow> number) \<Rightarrow> component list \<Rightarrow> heap \<Rightarrow> (error + element) list \<times> heap" where
  "run s2n [] h = ([], h)"
| "run s2n (c # cs) h =
     (let (out, h1) = render s2n c h;
          (outs, h2) = run s2n cs h1
      in (out # outs, h2))"

section \<open>Reading a rendered tree\<close>

text \<open>
  All the nodes of a tree, the nodes with a given tag, the rows bound to a node's
  \<open>data\<close> attribute and the series key of a node's \<open>dataKey\<close> attribute.
\<close>

fun nodes :: "element \<Rightarrow> element list" where
  "nodes (Element t as cs) = Element t as cs # concat (map nodes cs)"
| "nodes (Text fs) = [Text fs]"
| "nodes Null = [Null]"

fun has_tag :: "string \<Rightarrow> element \<Rightarrow> bool" where
  "has_tag t (Element t' as cs) = (t' = t)"
| "has_tag t (Text fs) = False"
| "has_tag t Null = False"

definition by_tag :: "string \<Rightarrow> element \<Rightarrow> element list" where
  "by_tag t e = filter (has_tag t) (nodes e)"

fun bound_rows :: "element \<Rightarrow> js_obj list" where
  "bound_rows (Element t as cs) =
     (case map_of as ''data'' of Some (DataAttr rs) \<Rightarrow> rs | _ \<Rightarrow> [])"
| "bound_rows (Text fs) = []"
| "bound_rows Null = []"

fun data_key :: "element \<Rightarrow> string option" where
  "data_key (Element t as cs) =
     (case map_of as ''dataKey'' of Some (StrAttr k) \<Rightarrow> Some k | _ \<Rightarrow> None)"
| "data_key (Text fs) = None"
| "data_key Null = None"

text \<open>
  The children of a node, one of its attributes, the children of a chart with a given
  tag (its series), and the axes of a chart.
\<close>

fun kids :: "element \<Rightarrow> element list" where
  "kids (Element t as cs) = cs"
| "kids (Text fs) = []"
| "kids Null = []"

fun attr_of :: "element \<Rightarrow> string \<Rightarrow> attr option" where
  "attr_of (Element t as cs) k = map_of as k"
| "attr_of (Text fs) k = None"
| "attr_of Null k = None"

definition series :: "string \<Rightarrow> element \<Rightarrow> element list" where
  "series t chart = filter (has_tag t) (kids chart)"

definition axes :: "element \<Rightarrow> element list" where
  "axes chart =
     filter (\<lambda>e. has_tag ''XAxis'' e \<or> has_tag ''YAxis'' e \<or> has_tag ''ZAxis'' e) (kids chart)"

text \<open>
  The points a series with key \<open>k\<close> has over the rows of its chart: one for each row
  whose value under \<open>k\<close> is a finite number.
\<close>

fun finite_value :: "js_val \<Rightarrow> rat option" where
  "finite_value (Num (Fin x)) = Some x"
| "finite_value v = None"

definition points :: "js_obj list \<Rightarrow> string \<Rightarrow> rat list" where
  "points rs k = List.map_filter (\<lambda>r. finite_value (get r k)) rs"

definition series_points :: "js_obj list \<Rightarrow> element \<Rightarrow> rat list" where
  "series_points rs e = (case data_key e of Some k \<Rightarrow> points rs k | None \<Rightarrow> [])"

section \<open>Properties of the datasets\<close>

text \<open>The shape of a record: its property names in order, and the kind of each value.\<close>

fun is_number :: "js_val \<Rightarrow> bool" where
  "is_number (Num n) = True"
| "is_number v = False"

fun is_string :: "js_val \<Rightarrow> bool" where
  "is_string (Str s) = True"
| "is_string v = False"

definition keys :: "js_obj \<Rightarrow> string list" where
  "keys ob = map fst ob"

text \<open>
  Rounding to two decimal places (to the nearest hundredth, a half upwards) and the
  arithmetic mean, as the words of the claims about \<open>efficiency\<close> and \<open>genreStats\<close>
  have them. A budget of zero has no finite ratio.
\<close>

definition round2 :: "rat \<Rightarrow> rat" where
  "round2 x = of_int \<lfloor>x * 100 + 1 / 2\<rfloor> / 100"

definition mean :: "rat list \<Rightarrow> rat" where
  "mean xs = sum_list xs / of_nat (length xs)"

definition efficiency_is_ratio :: "js_obj \<Rightarrow> bool" where
  "efficiency_is_ratio r =
     (case (get r ''budget'', get r ''revenue'', get r ''efficiency'') of
        (Num (Fin b), Num (Fin v), Num (Fin e)) \<Rightarrow> b \<noteq> 0 \<and> e = round2 (v / b)
      | _ \<Rightarrow> False)"

definition stat_is_mean :: "string \<Rightarrow> js_obj list \<Rightarrow> bool" where
  "stat_is_mean genre rs =
     (get genreStats genre = num (round2 (mean (points rs ''efficiency''))))"

text \<open>The value of \<open>genreStats\<close> for a genre is less than \<open>d\<close> away from the mean.\<close>

definition stat_near_mean :: "rat \<Rightarrow> string \<Rightarrow> js_obj list \<Rightarrow> bool" where
  "stat_near_mean d genre rs =
     (case get genreStats genre of
        Num (Fin s) \<Rightarrow> \<bar>s - mean (points rs ''efficiency'')\<bar> < d
      | _ \<Rightarrow> False)"

text \<open>The tier of a colour of \<open>getColorByRAR\<close>: 3 above 7, 2 above 5, 1 above 4, else 0.\<close>

definition tier :: "string \<Rightarrow> nat" where
  "tier c =
     (if c = ''#1a237e'' then 3
      else if c = ''#283593'' then 2
      else if c = ''#3949ab'' then 1
      else 0)"

text \<open>An array of the heap whose cell and whose elements are all allocated.\<close>

definition allocated :: "heap \<Rightarrow> ref \<Rightarrow> bool" where
  "allocated h a = (a < length h \<and> list_all (\<lambda>r. r < length h) (elems h a))"

text \<open>
  \<open>preserved h h'\<close>: every cell of \<open>h\<close> is in \<open>h'\<close> under the same reference with the
  same content (\<open>h'\<close> may hold more cells). \<open>returns r\<close>: the evaluation did not throw.
\<close>

definition preserved :: "heap \<Rightarrow> heap \<Rightarrow> bool" where
  "preserved h h' = (take (length h) h' = h)"

fun returns :: "error + 'a \<Rightarrow> bool" where
  "returns (Inr x) = True"
| "returns (Inl e) = False"

section \<open>Allocation leaves the heap as it was\<close>

lemma alloc_objects_eq:
  "alloc_objects obs h = ([length h..<length h + length obs], h @ map Object obs)"
proof (induction obs arbitrary: h)
  case Nil
  then show ?case by simp
next
  case (Cons ob obs)
  have "[length h..<length h + length (ob # obs)] =
          length h # [Suc (length h)..<Suc (length h) + length obs]"
    by (subst upt_rec) simp
  then show ?case
    using Cons [of "h @ [Object ob]"] by (simp add: alloc_def del: upt_Suc)
qed

lemma array_literal_eq:
  "array_literal obs h =
     (length h + length obs, h @ map Object obs @ [Array [length h..<length h + length obs]])"
  by (simp add: array_literal_def alloc_objects_eq alloc_def)

lemma spread_eq: "spread as h = (length h, h @ [Array (concat (map (elems h) as))])"
  by (simp add: spread_def alloc_def)

lemma elems_append: "a < length h \<Longrightarrow> elems (h @ ext) a = elems h a"
  by (simp add: elems_def nth_append)

lemma properties_append: "r < length h \<Longrightarrow> properties (h @ ext) r = properties h r"
  by (simp add: properties_def nth_append)

lemma elems_append_allocated: "allocated h a \<Longrightarrow> elems (h @ ext) a = elems h a"
  by (simp add: allocated_def elems_append)

lemma rows_append: "allocated h a \<Longrightarrow> rows (h @ ext) a = rows h a"
  by (simp add: allocated_def rows_def elems_append properties_append list_all_iff)

lemma allocated_append: "allocated h a \<Longrightarrow> allocated (h @ ext) a"
  by (auto simp: allocated_def elems_append list_all_iff)

lemma allocated_less: "allocated h a \<Longrightarrow> a < length h"
  by (simp add: allocated_def)

text \<open>A fresh array literal reads as the rows written, and is allocated.\<close>

lemma allocated_array_literal:
  "allocated (snd (array_literal obs h)) (fst (array_literal obs h))"
  by (simp add: array_literal_eq allocated_def elems_def nth_append list_all_iff)

lemma properties_fresh_objects:
  "map (properties (h @ map Object obs @ ext)) [length h..<length h + length obs] = obs"
  by (rule nth_equalityI) (simp_all add: properties_def nth_append)

lemma rows_array_literal:
  "rows (snd (array_literal obs h)) (fst (array_literal obs h)) = obs"
  using properties_fresh_objects [of h obs]
  by (simp add: array_literal_eq rows_def elems_def nth_append)

lemma length_elems_array_literal:
  "length (elems (snd (array_literal obs h)) (fst (array_literal obs h))) = length obs"
  by (simp add: array_literal_eq elems_def nth_append)

text \<open>An array that was allocated before reads the same after a literal or a spread.\<close>

lemma array_literal_keeps:
  assumes "allocated h a"
  shows "allocated (snd (array_literal obs h)) a"
    and "elems (snd (array_literal obs h)) a = elems h a"
    and "rows (snd (array_literal obs h)) a = rows h a"
  using assms
  by (simp_all add: array_literal_eq allocated_append rows_append elems_append_allocated)

lemma spread_keeps:
  assumes "allocated h a"
  shows "allocated (snd (spread as h)) a"
    and "elems (snd (spread as h)) a = elems h a"
    and "rows (snd (spread as h)) a = rows h a"
  using assms
  by (simp_all add: spread_eq allocated_append rows_append elems_append_allocated)

lemma elems_spread:
  "elems (snd (spread as h)) (fst (spread as h)) = concat (map (elems h) as)"
  by (simp add: spread_eq elems_def)

lemma rows_spread:
  assumes "list_all (allocated h) as"
  shows "rows (snd (spread as h)) (fst (spread as h)) = concat (map (rows h) as)"
proof -
  have "map (properties (h @ ext)) (elems h a) = rows h a" if "a \<in> set as" for a ext
    using that assms
    by (auto simp: rows_def allocated_def list_all_iff properties_append)
  then have "map (properties (h @ ext)) (concat (map (elems h) as)) = concat (map (rows h) as)"
    for ext
    by (simp add: map_concat cong: map_cong)
  then show ?thesis
    by (simp add: rows_def elems_spread) (simp add: spread_eq)
qed

lemma preserved_trans: "preserved h1 h2 \<Longrightarrow> preserved h2 h3 \<Longrightarrow> preserved h1 h3"
  unfolding preserved_def
  by (metis append_eq_conv_conj append_assoc append_take_drop_id)

lemma preserved_array_literal: "preserved h (snd (array_literal obs h))"
  by (simp add: preserved_def array_literal_eq)

lemma preserved_spread: "preserved h (snd (spread as h))"
  by (simp add: preserved_def spread_eq)

section \<open>What each component returns\<close>

lemma genre_output: "fst (GenreVisualization h) = Inr (genre_view genre_data)"
  by (simp add: GenreVisualization_def split_beta rows_array_literal)

lemma genre_heap: "snd (GenreVisualization h) = snd (array_literal genre_data h)"
  by (simp add: GenreVisualization_def split_beta)

lemma studio_output: "fst (StudioPerformance s2n h) = studio_view s2n studio_data"
  by (simp add: StudioPerformance_def split_beta rows_array_literal)

lemma studio_heap: "snd (StudioPerformance s2n h) = snd (array_literal studio_data h)"
  by (simp add: StudioPerformance_def split_beta)

lemma budget_sources_rows:
  "(case budget_sources h0 of ((hr, sr, ar, dr), h4) \<Rightarrow>
      rows h4 hr = horrorData \<and> rows h4 sr = scifiData \<and>
      rows h4 ar = actionData \<and> rows h4 dr = dramaData \<and>
      allocated h4 hr \<and> allocated h4 sr \<and> allocated h4 ar \<and> allocated h4 dr)"
  by (simp add: budget_sources_def Let_def split_beta allocated_array_literal
      rows_array_literal array_literal_keeps)

lemma budget_sources_preserved: "preserved h (snd (budget_sources h))"
  unfolding budget_sources_def Let_def split_beta snd_conv
  by (blast intro: preserved_trans preserved_array_literal)

lemma budget_arrays_preserved: "preserved (snd (budget_sources h)) (snd (budget_arrays h))"
  by (simp add: budget_arrays_def split_beta preserved_spread)

lemma budget_heap: "snd (BudgetEfficiencyAnalysis h) = snd (budget_arrays h)"
  by (simp add: BudgetEfficiencyAnalysis_def split_beta)

lemma budget_arrays_rows:
  "(case budget_arrays h0 of (env, h5) \<Rightarrow>
      rows h5 (horror_ref env) = horrorData \<and> rows h5 (scifi_ref env) = scifiData \<and>
      rows h5 (action_ref env) = actionData \<and> rows h5 (drama_ref env) = dramaData \<and>
      rows h5 (combined_ref env) = horrorData @ scifiData @ actionData @ dramaData)"
  using budget_sources_rows [of h0]
  by (simp add: budget_arrays_def split_beta spread_keeps rows_spread)

lemma budget_output:
  "fst (BudgetEfficiencyAnalysis h) = budget_view horrorData scifiData actionData dramaData"
  using budget_arrays_rows [of h]
  by (simp add: BudgetEfficiencyAnalysis_def split_beta)

lemma render_output: "fst (render s2n c h) = fst (render s2n c [])"
  by (cases c) (simp_all add: genre_output budget_output studio_output)

lemma render_preserved: "preserved h (snd (render s2n c h))"
proof (cases c)
  case Genre
  then show ?thesis by (simp add: genre_heap preserved_array_literal)
next
  case Budget
  then show ?thesis
    using preserved_trans [OF budget_sources_preserved budget_arrays_preserved]
    by (simp add: budget_heap)
next
  case Studio
  then show ?thesis by (simp add: studio_heap preserved_array_literal)
qed

lemma run_outputs: "fst (run s2n cs h) = map (\<lambda>c. fst (render s2n c [])) cs"
proof (induction cs arbitrary: h)
  case Nil
  then show ?case by simp
next
  case (Cons c cs)
  then show ?case
    using render_output [of s2n c h] by (simp add: split_beta)
qed

section \<open>Evaluating the components on their datasets\<close>

lemma lengths:
  "length genre_data = 10" "length horrorData = 10" "length scifiData = 10"
  "length actionData = 10" "length dramaData = 10" "length studio_data = 6"
  by (simp_all add: genre_data_def horrorData_def scifiData_def actionData_def dramaData_def
      studio_data_def)

lemma nonempty: "horrorData \<noteq> []" "scifiData \<noteq> []" "actionData \<noteq> []" "dramaData \<noteq> []"
  using lengths by auto

lemma genre_tree_facts:
  "map bound_rows (by_tag ''LineChart'' (genre_view genre_data)) = [genre_data] \<and>
   map data_key (by_tag ''Line'' (genre_view genre_data)) =
     [Some ''horror'', Some ''scifi'', Some ''action'', Some ''drama'', Some ''comedy'']"
  by (simp add: genre_view_def line_def by_tag_def)

lemma genre_points:
  "map (\<lambda>k. length (points genre_data k)) [''horror'', ''scifi'', ''action'', ''drama'', ''comedy'']
     = [10, 10, 10, 10, 10]"
  by (simp add: genre_data_def points_def List.map_filter_simps get_def)

lemma genre_series:
  "map (\<lambda>l. length (series_points genre_data l)) (by_tag ''Line'' (genre_view genre_data)) =
     [10, 10, 10, 10, 10]"
  using genre_points
  by (simp add: genre_view_def line_def by_tag_def series_points_def)

lemma renderScatter_returns:
  "data \<noteq> [] \<Longrightarrow> \<exists>al. renderScatter data color = Inr (Element ''Scatter'' al []) \<and> map_of al ''data'' = Some (DataAttr data)"
  by (cases data) (simp_all add: renderScatter_def)

lemma budget_scatters:
  "\<exists>t. budget_view horrorData scifiData actionData dramaData = Inr t \<and>
       map bound_rows (by_tag ''Scatter'' t) = [horrorData, scifiData, actionData, dramaData]"
proof -
  obtain a1 a2 a3 a4 where
    "renderScatter horrorData ''#d32f2f'' = Inr (Element ''Scatter'' a1 [])" "map_of a1 ''data'' = Some (DataAttr horrorData)"
    "renderScatter scifiData ''#2e7d32'' = Inr (Element ''Scatter'' a2 [])" "map_of a2 ''data'' = Some (DataAttr scifiData)"
    "renderScatter actionData ''#1976d2'' = Inr (Element ''Scatter'' a3 [])" "map_of a3 ''data'' = Some (DataAttr actionData)"
    "renderScatter dramaData ''#7b1fa2'' = Inr (Element ''Scatter'' a4 [])" "map_of a4 ''data'' = Some (DataAttr dramaData)"
    using renderScatter_returns nonempty by metis
  then show ?thesis
    by (simp add: budget_view_def and_then_def by_tag_def)
qed

lemma studio_tree:
  "\<exists>t. studio_view s2n studio_data = Inr t \<and>
       map bound_rows (by_tag ''BarChart'' t) = [studio_data] \<and>
       map (\<lambda>b. length (children b)) (by_tag ''Bar'' t) = [6] \<and>
       length (by_tag ''Cell'' t) = 6"
  by (simp add: studio_view_def studio_data_def map_index_def table_row_def cell_of_def
      toFixed_def get_def and_then_def by_tag_def upt_rec)

lemma scatter_points:
  "list_all (\<lambda>d. map (\<lambda>k. length (points d k)) [''budget'', ''revenue'', ''efficiency''] =
       [10, 10, 10]) [horrorData, scifiData, actionData, dramaData]"
  by (simp add: horrorData_def scifiData_def actionData_def dramaData_def points_def
      List.map_filter_simps get_def)

lemma bar_points: "length (points studio_data ''riskAdjustedReturn'') = 6"
  by (simp add: studio_data_def points_def List.map_filter_simps get_def)

text \<open>Each chart with its own series, read from the tree the component returns.\<close>

lemma renderScatter_nonempty:
  "data \<noteq> [] \<Longrightarrow>
   renderScatter data color =
     Inr (Element ''Scatter''
       [(''name'', TextAttr [Val (get (hd data) ''genre''), Lit '' (avg '',
                      Val (genreStats_at (get (hd data) ''genre'')), Lit ''x)'']),
        (''data'', DataAttr data),
        (''fill'', StrAttr color),
        (''line.stroke'', StrAttr color),
        (''lineType'', StrAttr ''fitting'')] [])"
  by (cases data) (simp_all add: renderScatter_def)

lemma scatter_point_counts:
  "length (points horrorData ''budget'') = 10" "length (points horrorData ''revenue'') = 10"
  "length (points horrorData ''efficiency'') = 10"
  "length (points scifiData ''budget'') = 10" "length (points scifiData ''revenue'') = 10"
  "length (points scifiData ''efficiency'') = 10"
  "length (points actionData ''budget'') = 10" "length (points actionData ''revenue'') = 10"
  "length (points actionData ''efficiency'') = 10"
  "length (points dramaData ''budget'') = 10" "length (points dramaData ''revenue'') = 10"
  "length (points dramaData ''efficiency'') = 10"
  using scatter_points by simp_all

lemma genre_chart:
  "map (\<lambda>lc. (bound_rows lc, map data_key (series ''XAxis'' lc),
              map (\<lambda>l. (data_key l, length (series_points (bound_rows lc) l)))
                (series ''Line'' lc)))
     (by_tag ''LineChart'' (genre_view genre_data)) =
     [(genre_data, [Some ''year''],
       [(Some ''horror'', 10), (Some ''scifi'', 10), (Some ''action'', 10),
        (Some ''drama'', 10), (Some ''comedy'', 10)])] \<and>
   by_tag ''Line'' (genre_view genre_data) =
     concat (map (series ''Line'') (by_tag ''LineChart'' (genre_view genre_data)))"
  using genre_points
  by (simp add: genre_view_def line_def by_tag_def series_def series_points_def)

lemma budget_chart:
  "\<exists>t. budget_view horrorData scifiData actionData dramaData = Inr t \<and>
     map (\<lambda>sc. (map data_key (axes sc),
                map (\<lambda>s. (bound_rows s, length (bound_rows s),
                           map (\<lambda>ax. length (series_points (bound_rows s) ax)) (axes sc)))
                  (series ''Scatter'' sc)))
       (by_tag ''ScatterChart'' t) =
       [([Some ''budget'', Some ''revenue'', Some ''efficiency''],
         [(horrorData, 10, [10, 10, 10]), (scifiData, 10, [10, 10, 10]),
          (actionData, 10, [10, 10, 10]), (dramaData, 10, [10, 10, 10])])] \<and>
     by_tag ''Scatter'' t = concat (map (series ''Scatter'') (by_tag ''ScatterChart'' t)) \<and>
     map bound_rows (by_tag ''Scatter'' t) = [horrorData, scifiData, actionData, dramaData]"
  by (simp add: budget_view_def renderScatter_nonempty nonempty and_then_def by_tag_def
      series_def axes_def series_points_def scatter_point_counts lengths)

lemma studio_chart:
  "\<exists>t. studio_view s2n studio_data = Inr t \<and>
     map (\<lambda>bc. (bound_rows bc,
                map (\<lambda>b. (data_key b, length (series_points (bound_rows bc) b),
                           map (has_tag ''Cell'') (kids b),
                           map (\<lambda>c. attr_of c ''key'') (kids b),
                           map (\<lambda>c. attr_of c ''fill'') (kids b)))
                  (series ''Bar'' bc)))
       (by_tag ''BarChart'' t) =
       [(studio_data,
         [(Some ''riskAdjustedReturn'', 6, [True, True, True, True, True, True],
           map (\<lambda>i. Some (TextAttr [Lit ''cell-'', Val (num i)])) [0, 1, 2, 3, 4, 5],
           map (\<lambda>r. Some (StrAttr (getColorByRAR (to_number s2n (get r ''riskAdjustedReturn'')))))
             studio_data)])] \<and>
     by_tag ''Bar'' t = concat (map (series ''Bar'') (by_tag ''BarChart'' t)) \<and>
     by_tag ''Cell'' t = concat (map kids (by_tag ''Bar'' t)) \<and>
     map bound_rows (by_tag ''BarChart'' t) = [studio_data] \<and>
     map (\<lambda>b. length (children b)) (by_tag ''Bar'' t) = [6] \<and>
     length (by_tag ''Cell'' t) = 6"
  by (simp add: studio_view_def studio_data_def map_index_def table_row_def cell_of_def
      toFixed_def get_def and_then_def by_tag_def series_def series_points_def points_def
      List.map_filter_simps upt_rec)

text \<open>The helpers return on the rows of the datasets, and throw where the source would.\<close>

lemma renderScatter_empty: "renderScatter [] color = Inl TypeError"
  by (simp add: renderScatter_def)

lemma scatter_returns:
  "list_all (\<lambda>d. returns (renderScatter d color)) [horrorData, scifiData, actionData, dramaData]"
proof -
  have "returns (renderScatter d color)" if "d \<noteq> []" for d
    using renderScatter_returns [OF that, of color] by auto
  then show ?thesis
    using nonempty by simp
qed

lemma tooltip_returns_row:
  assumes "is_number (get r ''budget'')" "is_number (get r ''revenue'')" "is_number (get r ''efficiency'')"
  shows "returns (CustomTooltip active (Some (Some r # items)))"
proof -
  obtain b v e where "get r ''budget'' = Num b" "get r ''revenue'' = Num v"
    "get r ''efficiency'' = Num e"
    using assms by (metis is_number.elims(2))
  then show ?thesis
    by (simp add: CustomTooltip_def toFixed_def and_then_def)
qed

lemma budget_numeric:
  "list_all (\<lambda>r. is_number (get r ''budget'') \<and> is_number (get r ''revenue'') \<and>
      is_number (get r ''efficiency'')) (horrorData @ scifiData @ actionData @ dramaData)"
  by (simp add: horrorData_def scifiData_def actionData_def dramaData_def get_def)

lemma tooltip_returns:
  "list_all (\<lambda>r. returns (CustomTooltip active (Some (Some r # items))))
     (horrorData @ scifiData @ actionData @ dramaData)"
  using budget_numeric
  by (simp add: list_all_iff tooltip_returns_row del: list_all_append)

lemma tooltip_idle:
  "CustomTooltip active None = Inr Null" "CustomTooltip active (Some []) = Inr Null"
  "CustomTooltip False payload = Inr Null"
  by (simp_all add: CustomTooltip_def split: option.splits list.splits)

lemma render_returns: "returns (fst (render s2n c h))"
proof (cases c)
  case Genre
  then show ?thesis by (simp add: genre_output)
next
  case Budget
  then show ?thesis using budget_scatters by (auto simp: budget_output)
next
  case Studio
  then show ?thesis using studio_tree [of s2n] by (auto simp: studio_output)
qed

lemma formatter_returns:
  "list_all (\<lambda>r. returns (formatter (get r ''riskAdjustedReturn'') name)) studio_data"
  by (simp add: studio_data_def formatter_def toFixed_def and_then_def get_def)

text \<open>The shape of the budget records, and the arithmetic of their \<open>efficiency\<close>.\<close>

lemma budget_keys:
  "list_all (\<lambda>r. keys r = [''budget'', ''revenue'', ''efficiency'', ''genre''])
     (horrorData @ scifiData @ actionData @ dramaData)"
  by (simp add: horrorData_def scifiData_def actionData_def dramaData_def keys_def)

lemma budget_labels:
  "list_all (\<lambda>r. get r ''genre'' = Str ''Horror'') horrorData \<and>
   list_all (\<lambda>r. get r ''genre'' = Str ''Science Fiction'') scifiData \<and>
   list_all (\<lambda>r. get r ''genre'' = Str ''Action'') actionData \<and>
   list_all (\<lambda>r. get r ''genre'' = Str ''Drama'') dramaData"
  by (simp add: horrorData_def scifiData_def actionData_def dramaData_def get_def)

lemma budget_genres:
  "remdups (map (\<lambda>r. get r ''genre'') (horrorData @ scifiData @ actionData @ dramaData)) =
     [Str ''Horror'', Str ''Science Fiction'', Str ''Action'', Str ''Drama'']"
  by (simp add: horrorData_def scifiData_def actionData_def dramaData_def get_def)

lemma horror_ratios: "filter (\<lambda>r. \<not> efficiency_is_ratio r) horrorData = [horrorData ! 4]"
  by (simp add: horrorData_def efficiency_is_ratio_def get_def round2_def floor_eq_iff)

lemma other_ratios:
  "filter (\<lambda>r. \<not> efficiency_is_ratio r) scifiData = []"
  "filter (\<lambda>r. \<not> efficiency_is_ratio r) actionData = []"
  "filter (\<lambda>r. \<not> efficiency_is_ratio r) dramaData = []"
  by (simp_all add: scifiData_def actionData_def dramaData_def efficiency_is_ratio_def get_def
      round2_def floor_eq_iff)

lemma means:
  "mean (points horrorData ''efficiency'') = 3.296"
  "mean (points scifiData ''efficiency'') = 1.586"
  "mean (points actionData ''efficiency'') = 2.431"
  "mean (points dramaData ''efficiency'') = 1.871"
  by (simp_all add: horrorData_def scifiData_def actionData_def dramaData_def mean_def points_def
      List.map_filter_simps get_def)

section \<open>The claims\<close>

text \<open>
  Claim C1. Each chart draws one data point for each input row. The tree of
  \<open>GenreVisualization\<close> has one \<open>LineChart\<close>, bound to the 10 yearly records, with the
  x axis on \<open>year\<close>; its \<open>Line\<close> children are the five series \<open>horror\<close>, \<open>scifi\<close>,
  \<open>action\<close>, \<open>drama\<close>, \<open>comedy\<close>, each with 10 points over the chart's rows, and the
  tree has no other \<open>Line\<close>. The tree of \<open>BudgetEfficiencyAnalysis\<close> has one
  \<open>ScatterChart\<close> with axes on \<open>budget\<close>, \<open>revenue\<close> and \<open>efficiency\<close>; its \<open>Scatter\<close>
  children are bound, in order, to \<open>horrorData\<close>, \<open>scifiData\<close>, \<open>actionData\<close> and
  \<open>dramaData\<close>, of 10 records each, with 10 points under each axis of the chart, and
  the tree has no other \<open>Scatter\<close>. The tree of \<open>StudioPerformance\<close> has one
  \<open>BarChart\<close>, bound to the 6 studio records, with one \<open>Bar\<close> on
  \<open>riskAdjustedReturn\<close> that has 6 points over the chart's rows; the children of the
  \<open>Bar\<close> are 6 \<open>Cell\<close>s, the i-th with key \<open>cell-i\<close> and the colour of the i-th record,
  and the tree has no other \<open>Bar\<close> or \<open>Cell\<close>. (The drawing itself is the chart
  library's.)
\<close>

theorem charts_draw_every_row:
  "fst (GenreVisualization h) = Inr (genre_view genre_data) \<and>
   map (\<lambda>lc. (bound_rows lc, map data_key (series ''XAxis'' lc),
              map (\<lambda>l. (data_key l, length (series_points (bound_rows lc) l)))
                (series ''Line'' lc)))
     (by_tag ''LineChart'' (genre_view genre_data)) =
     [(genre_data, [Some ''year''],
       [(Some ''horror'', 10), (Some ''scifi'', 10), (Some ''action'', 10),
        (Some ''drama'', 10), (Some ''comedy'', 10)])] \<and>
   by_tag ''Line'' (genre_view genre_data) =
     concat (map (series ''Line'') (by_tag ''LineChart'' (genre_view genre_data))) \<and>
   map bound_rows (by_tag ''LineChart'' (genre_view genre_data)) = [genre_data] \<and>
   length genre_data = 10 \<and>
   map data_key (by_tag ''Line'' (genre_view genre_data)) =
     [Some ''horror'', Some ''scifi'', Some ''action'', Some ''drama'', Some ''comedy''] \<and>
   map (\<lambda>l. length (series_points genre_data l)) (by_tag ''Line'' (genre_view genre_data)) =
     [10, 10, 10, 10, 10] \<and>
   (\<exists>t. fst (BudgetEfficiencyAnalysis h) = Inr t \<and>
     map (\<lambda>sc. (map data_key (axes sc),
                map (\<lambda>s. (bound_rows s, length (bound_rows s),
                           map (\<lambda>ax. length (series_points (bound_rows s) ax)) (axes sc)))
                  (series ''Scatter'' sc)))
       (by_tag ''ScatterChart'' t) =
       [([Some ''budget'', Some ''revenue'', Some ''efficiency''],
         [(horrorData, 10, [10, 10, 10]), (scifiData, 10, [10, 10, 10]),
          (actionData, 10, [10, 10, 10]), (dramaData, 10, [10, 10, 10])])] \<and>
     by_tag ''Scatter'' t = concat (map (series ''Scatter'') (by_tag ''ScatterChart'' t)) \<and>
     map bound_rows (by_tag ''Scatter'' t) = [horrorData, scifiData, actionData, dramaData]) \<and>
   map length [horrorData, scifiData, actionData, dramaData] = [10, 10, 10, 10] \<and>
   list_all (\<lambda>d. map (\<lambda>k. length (points d k)) [''budget'', ''revenue'', ''efficiency''] =
       [10, 10, 10]) [horrorData, scifiData, actionData, dramaData] \<and>
   (\<exists>t. fst (StudioPerformance s2n h) = Inr t \<and>
     map (\<lambda>bc. (bound_rows bc,
                map (\<lambda>b. (data_key b, length (series_points (bound_rows bc) b),
                           map (has_tag ''Cell'') (kids b),
                           map (\<lambda>c. attr_of c ''key'') (kids b),
                           map (\<lambda>c. attr_of c ''fill'') (kids b)))
                  (series ''Bar'' bc)))
       (by_tag ''BarChart'' t) =
       [(studio_data,
         [(Some ''riskAdjustedReturn'', 6, [True, True, True, True, True, True],
           map (\<lambda>i. Some (TextAttr [Lit ''cell-'', Val (num i)])) [0, 1, 2, 3, 4, 5],
           map (\<lambda>r. Some (StrAttr (getColorByRAR (to_number s2n (get r ''riskAdjustedReturn'')))))
             studio_data)])] \<and>
     by_tag ''Bar'' t = concat (map (series ''Bar'') (by_tag ''BarChart'' t)) \<and>
     by_tag ''Cell'' t = concat (map kids (by_tag ''Bar'' t)) \<and>
     map bound_rows (by_tag ''BarChart'' t) = [studio_data] \<and>
     map (\<lambda>b. length (children b)) (by_tag ''Bar'' t) = [6] \<and>
     length (by_tag ''Cell'' t) = 6) \<and>
   length studio_data = 6 \<and>
   length (points studio_data ''riskAdjustedReturn'') = 6"
proof -
  have genre: "fst (GenreVisualization h) = Inr (genre_view genre_data)"
    by (rule genre_output)
  note budget = budget_chart [folded budget_output [of h]]
  note studio = studio_chart [of s2n, folded studio_output [of s2n h]]
  have sizes: "map length [horrorData, scifiData, actionData, dramaData] = [10, 10, 10, 10]"
    by (simp add: lengths)
  from genre genre_chart genre_tree_facts genre_series budget studio sizes scatter_points
  show ?thesis
    by (simp only: lengths bar_points simp_thms)
qed

text \<open>
  Claim C2. The three components are stateless and deterministic. Rendered on any two
  heaps, a component returns the same output; it leaves every cell that was on the heap
  as it was; and in a sequence of renders of the three components, in any order and any
  number of times, each output is the one the component gives when rendered alone.
\<close>

theorem stateless_deterministic:
  "fst (render s2n c h) = fst (render s2n c h') \<and>
   preserved h (snd (render s2n c h)) \<and>
   fst (run s2n cs h) = map (\<lambda>c. fst (render s2n c [])) cs"
  using render_output [of s2n c h] render_output [of s2n c h']
  by (simp add: render_preserved run_outputs)

text \<open>
  Claim C3. No render throws. Each component returns an element. \<open>renderScatter\<close>
  returns on each of the four arrays it is called with; \<open>CustomTooltip\<close> returns on
  every row of the four arrays (whatever \<open>active\<close> is and whatever items follow the
  first), and on a missing or empty payload; \<open>getColorByRAR\<close> gives one of its four
  colours on every studio row; the tooltip formatter returns on every studio row.
\<close>

theorem no_render_throws:
  "returns (fst (GenreVisualization h)) \<and>
   returns (fst (BudgetEfficiencyAnalysis h)) \<and>
   returns (fst (StudioPerformance s2n h)) \<and>
   list_all (\<lambda>d. returns (renderScatter d color)) [horrorData, scifiData, actionData, dramaData] \<and>
   list_all (\<lambda>r. returns (CustomTooltip active (Some (Some r # items))))
     (horrorData @ scifiData @ actionData @ dramaData) \<and>
   returns (CustomTooltip active None) \<and>
   returns (CustomTooltip active (Some [])) \<and>
   list_all (\<lambda>r. getColorByRAR (to_number s2n (get r ''riskAdjustedReturn'')) \<in>
       {''#1a237e'', ''#283593'', ''#3949ab'', ''#5c6bc0''}) studio_data \<and>
   list_all (\<lambda>r. returns (formatter (get r ''riskAdjustedReturn'') name)) studio_data"
proof -
  have "list_all (\<lambda>r. getColorByRAR (to_number s2n (get r ''riskAdjustedReturn'')) \<in>
       {''#1a237e'', ''#283593'', ''#3949ab'', ''#5c6bc0''}) studio_data"
    by (simp add: list_all_iff getColorByRAR_def)
  moreover have "returns (fst (GenreVisualization h))"
    "returns (fst (BudgetEfficiencyAnalysis h))" "returns (fst (StudioPerformance s2n h))"
    using render_returns [of s2n Genre h] render_returns [of s2n Budget h]
      render_returns [of s2n Studio h] by simp_all
  moreover have "returns (CustomTooltip active None)" "returns (CustomTooltip active (Some []))"
    by (simp_all add: tooltip_idle)
  ultimately show ?thesis
    using scatter_returns [of color] tooltip_returns [of active items] formatter_returns [of name]
    by blast
qed

text \<open>
  Claim C4. The genre dataset has exactly 10 records, one for each year from 2015 to
  2024 in order; every record has exactly the properties \<open>year\<close>, \<open>horror\<close>, \<open>scifi\<close>,
  \<open>action\<close>, \<open>drama\<close>, \<open>comedy\<close>, and the five genre values are numbers.
\<close>

theorem genre_records_shape:
  "length genre_data = 10 \<and>
   map (\<lambda>r. get r ''year'') genre_data =
     map num [2015, 2016, 2017, 2018, 2019, 2020, 2021, 2022, 2023, 2024] \<and>
   list_all (\<lambda>r. keys r = [''year'', ''horror'', ''scifi'', ''action'', ''drama'', ''comedy''])
     genre_data \<and>
   list_all (\<lambda>r. list_all (\<lambda>k. is_number (get r k))
     [''horror'', ''scifi'', ''action'', ''drama'', ''comedy'']) genre_data"
  by (simp add: genre_data_def get_def keys_def)

text \<open>
  Claim C5. Every budget record has exactly the properties \<open>budget\<close>, \<open>revenue\<close>,
  \<open>efficiency\<close>, \<open>genre\<close>; the genre takes exactly the four values \<open>Horror\<close>,
  \<open>Science Fiction\<close>, \<open>Action\<close>, \<open>Drama\<close>; every record of a bucket array carries the
  label of its bucket; and \<open>combinedData\<close> reads as the four arrays one after another.
\<close>

theorem budget_records_shape:
  "list_all (\<lambda>r. keys r = [''budget'', ''revenue'', ''efficiency'', ''genre''])
     (horrorData @ scifiData @ actionData @ dramaData) \<and>
   remdups (map (\<lambda>r. get r ''genre'') (horrorData @ scifiData @ actionData @ dramaData)) =
     [Str ''Horror'', Str ''Science Fiction'', Str ''Action'', Str ''Drama''] \<and>
   list_all (\<lambda>r. get r ''genre'' = Str ''Horror'') horrorData \<and>
   list_all (\<lambda>r. get r ''genre'' = Str ''Science Fiction'') scifiData \<and>
   list_all (\<lambda>r. get r ''genre'' = Str ''Action'') actionData \<and>
   list_all (\<lambda>r. get r ''genre'' = Str ''Drama'') dramaData \<and>
   (case budget_arrays h of (env, h5) \<Rightarrow>
      rows h5 (combined_ref env) = horrorData @ scifiData @ actionData @ dramaData)"
  using budget_keys budget_genres budget_labels budget_arrays_rows [of h]
  by (simp only: split_beta simp_thms)

text \<open>
  Claim C6. Every studio record has exactly the properties \<open>studio\<close>,
  \<open>riskAdjustedReturn\<close>, \<open>profitRatio\<close>, \<open>risk\<close>, \<open>genreDiversity\<close>; \<open>studio\<close> is a
  string and the other four are numbers.
\<close>

theorem studio_records_shape:
  "list_all (\<lambda>r.
      keys r = [''studio'', ''riskAdjustedReturn'', ''profitRatio'', ''risk'', ''genreDiversity''] \<and>
      is_string (get r ''studio'') \<and>
      list_all (\<lambda>k. is_number (get r k))
        [''riskAdjustedReturn'', ''profitRatio'', ''risk'', ''genreDiversity'']) studio_data"
  by (simp add: studio_data_def get_def keys_def)

text \<open>
  Claim C7. No dataset is mutated by a render. In \<open>BudgetEfficiencyAnalysis\<close>, once the
  four arrays are loaded they read as their literals; building \<open>combinedData\<close> leaves
  every cell of the heap as it was, so the four arrays keep their elements, their
  length and their rows; \<open>combinedData\<close> is a new array; and the rest of the render
  leaves the heap as \<open>combinedData\<close> left it. In \<open>StudioPerformance\<close> and
  \<open>GenreVisualization\<close> the heap at the end is the heap right after \<open>data\<close> was
  loaded, where \<open>data\<close> reads as its literal. No render changes a cell that existed
  before it. (The callbacks of \<open>map\<close> and the tooltip helpers take the values read and
  have no access to the heap, as in the source they only read.)
\<close>

theorem datasets_not_mutated:
  "(case budget_sources h of ((hr, sr, ar, dr), h4) \<Rightarrow>
      case budget_arrays h of (env, h5) \<Rightarrow>
        [horror_ref env, scifi_ref env, action_ref env, drama_ref env] = [hr, sr, ar, dr] \<and>
        map (rows h4) [hr, sr, ar, dr] = [horrorData, scifiData, actionData, dramaData] \<and>
        preserved h4 h5 \<and>
        map (rows h5) [hr, sr, ar, dr] = map (rows h4) [hr, sr, ar, dr] \<and>
        map (elems h5) [hr, sr, ar, dr] = map (elems h4) [hr, sr, ar, dr] \<and>
        rows h5 (combined_ref env) = horrorData @ scifiData @ actionData @ dramaData \<and>
        combined_ref env \<notin> set [hr, sr, ar, dr] \<and>
        snd (BudgetEfficiencyAnalysis h) = h5) \<and>
   (case array_literal studio_data h of (d, h1) \<Rightarrow>
      rows h1 d = studio_data \<and> length (elems h1 d) = length studio_data \<and>
      snd (StudioPerformance s2n h) = h1) \<and>
   (case array_literal genre_data h of (d, h1) \<Rightarrow>
      rows h1 d = genre_data \<and> length (elems h1 d) = length genre_data \<and>
      snd (GenreVisualization h) = h1) \<and>
   preserved h (snd (render s2n c h))"
proof -
  obtain hr sr ar dr h4 where src: "budget_sources h = ((hr, sr, ar, dr), h4)"
    by (metis prod.exhaust)
  obtain env h5 where arr: "budget_arrays h = (env, h5)"
    by (metis prod.exhaust)
  have al: "allocated h4 hr" "allocated h4 sr" "allocated h4 ar" "allocated h4 dr"
    and r4: "rows h4 hr = horrorData" "rows h4 sr = scifiData" "rows h4 ar = actionData"
      "rows h4 dr = dramaData"
    using budget_sources_rows [of h] src by simp_all
  have env: "horror_ref env = hr" "scifi_ref env = sr" "action_ref env = ar" "drama_ref env = dr"
    and h5: "h5 = snd (spread [hr, sr, ar, dr] h4)"
    and cr: "combined_ref env = fst (spread [hr, sr, ar, dr] h4)"
    using arr src by (auto simp: budget_arrays_def split_beta)
  have fresh: "combined_ref env = length h4"
    by (simp add: cr spread_eq)
  have "combined_ref env \<notin> set [hr, sr, ar, dr]"
    using al [THEN allocated_less] fresh by auto
  moreover have "preserved h4 h5"
    by (simp add: h5 preserved_spread)
  moreover have "rows h5 (combined_ref env) = horrorData @ scifiData @ actionData @ dramaData"
    using budget_arrays_rows [of h] arr by simp
  moreover have "snd (BudgetEfficiencyAnalysis h) = h5"
    by (simp add: budget_heap arr)
  ultimately have budget: "(case budget_sources h of ((hr, sr, ar, dr), h4) \<Rightarrow>
      case budget_arrays h of (env, h5) \<Rightarrow>
        [horror_ref env, scifi_ref env, action_ref env, drama_ref env] = [hr, sr, ar, dr] \<and>
        map (rows h4) [hr, sr, ar, dr] = [horrorData, scifiData, actionData, dramaData] \<and>
        preserved h4 h5 \<and>
        map (rows h5) [hr, sr, ar, dr] = map (rows h4) [hr, sr, ar, dr] \<and>
        map (elems h5) [hr, sr, ar, dr] = map (elems h4) [hr, sr, ar, dr] \<and>
        rows h5 (combined_ref env) = horrorData @ scifiData @ actionData @ dramaData \<and>
        combined_ref env \<notin> set [hr, sr, ar, dr] \<and>
        snd (BudgetEfficiencyAnalysis h) = h5)"
    using al r4 env by (simp add: src arr h5 spread_keeps)
  have studio: "(case array_literal studio_data h of (d, h1) \<Rightarrow>
      rows h1 d = studio_data \<and> length (elems h1 d) = length studio_data \<and>
      snd (StudioPerformance s2n h) = h1)"
    by (simp add: split_beta rows_array_literal length_elems_array_literal studio_heap)
  have genre: "(case array_literal genre_data h of (d, h1) \<Rightarrow>
      rows h1 d = genre_data \<and> length (elems h1 d) = length genre_data \<and>
      snd (GenreVisualization h) = h1)"
    by (simp add: split_beta rows_array_literal length_elems_array_literal genre_heap)
  from budget studio genre show ?thesis
    by (simp only: render_preserved simp_thms)
qed

text \<open>
  Claim C8. In every budget record, \<open>efficiency\<close> is \<open>revenue / budget\<close> rounded to two
  decimal places. The data departs from this at exactly one of the 40 records: the
  fifth record of \<open>horrorData\<close> has budget 10.1, revenue 35.3 and efficiency 3.49, where
  the ratio 3.49505 is more than half a hundredth above 3.49 and rounds to 3.50.
\<close>

theorem efficiency_off_at_one_record:
  "horrorData ! 4 =
     [(''budget'', num 10.1), (''revenue'', num 35.3), (''efficiency'', num 3.49),
      (''genre'', Str ''Horror'')] \<and>
   round2 (35.3 / 10.1) = 3.50 \<and>
   (0.005 :: rat) < 35.3 / 10.1 - 3.49 \<and>
   \<not> efficiency_is_ratio (horrorData ! 4) \<and>
   filter (\<lambda>r. \<not> efficiency_is_ratio r) (horrorData @ scifiData @ actionData @ dramaData) =
     [horrorData ! 4]"
proof -
  have "horrorData ! 4 =
     [(''budget'', num 10.1), (''revenue'', num 35.3), (''efficiency'', num 3.49),
      (''genre'', Str ''Horror'')]"
    by (simp add: horrorData_def)
  moreover from this have "\<not> efficiency_is_ratio (horrorData ! 4)"
    by (simp add: efficiency_is_ratio_def get_def round2_def floor_eq_iff)
  moreover have "round2 (35.3 / 10.1) = 3.50" "(0.005 :: rat) < 35.3 / 10.1 - 3.49"
    by (simp_all add: round2_def floor_eq_iff)
  ultimately show ?thesis
    by (simp only: filter_append horror_ratios other_ratios append_Nil2 simp_thms)
qed

text \<open>
  Claim C9, as stated: each value of \<open>genreStats\<close> is the mean of the ten
  \<open>efficiency\<close> values of its genre, rounded to two decimal places. It fails for
  Horror: the ten values have mean 3.296, which rounds to 3.30, and \<open>genreStats\<close> holds
  3.29.
\<close>

theorem genreStats_mean_counterexample:
  "get genreStats ''Horror'' = num 3.29 \<and>
   round2 (mean (points horrorData ''efficiency'')) = 3.30 \<and>
   \<not> stat_is_mean ''Horror'' horrorData"
  by (simp add: stat_is_mean_def means genreStats_def get_def round2_def floor_eq_iff)

text \<open>
  Claim C9, amended. \<open>genreStats\<close> holds four constants, 3.29 for Horror, 1.60 for
  Science Fiction, 2.46 for Action and 1.87 for Drama (the averages the key findings
  quote); none is computed from the arrays. Each is less than 0.03 away from the mean of
  the ten \<open>efficiency\<close> values of its genre (3.296, 1.586, 2.431, 1.871), and the one
  for Drama is that mean rounded to two decimal places, which the ones for Science
  Fiction and Action are not.
\<close>

theorem genreStats_near_the_means:
  "genreStats =
     [(''Horror'', num 3.29), (''Science Fiction'', num 1.60),
      (''Action'', num 2.46), (''Drama'', num 1.87)] \<and>
   map (\<lambda>rs. mean (points rs ''efficiency'')) [horrorData, scifiData, actionData, dramaData] =
     [3.296, 1.586, 2.431, 1.871] \<and>
   stat_near_mean 0.03 ''Horror'' horrorData \<and>
   stat_near_mean 0.03 ''Science Fiction'' scifiData \<and>
   stat_near_mean 0.03 ''Action'' actionData \<and>
   stat_near_mean 0.03 ''Drama'' dramaData \<and>
   stat_is_mean ''Drama'' dramaData \<and>
   \<not> stat_is_mean ''Science Fiction'' scifiData \<and>
   \<not> stat_is_mean ''Action'' actionData"
  by (simp add: stat_near_mean_def stat_is_mean_def means genreStats_def get_def round2_def
      floor_eq_iff)

text \<open>
  Claim C10. \<open>getColorByRAR\<close> is total and monotone: for every number, NaN and the
  infinities included, it returns one of the four colours \<open>#1a237e\<close>, \<open>#283593\<close>,
  \<open>#3949ab\<close>, \<open>#5c6bc0\<close>; and when \<open>x >= y\<close>, the colour of \<open>x\<close> is of a tier at least
  as high as the colour of \<open>y\<close>, the tiers being ordered by their thresholds 7, 5, 4.
\<close>

theorem getColorByRAR_total_monotone:
  "getColorByRAR x \<in> {''#1a237e'', ''#283593'', ''#3949ab'', ''#5c6bc0''} \<and>
   (ge x y \<longrightarrow> tier (getColorByRAR y) \<le> tier (getColorByRAR x))"
  by (cases x; cases y) (auto simp: getColorByRAR_def tier_def)

theorem getColorByRAR_total_monotone_witness:
  "ge (Fin 8.31) (Fin 4.80) \<and> getColorByRAR (Fin 8.31) = ''#1a237e'' \<and>
   getColorByRAR (Fin 4.80) = ''#3949ab'' \<and>
   tier (getColorByRAR (Fin 4.80)) \<le> tier (getColorByRAR (Fin 8.31))"
  using getColorByRAR_total_monotone [of "Fin 8.31" "Fin 4.80"]
  by (simp add: getColorByRAR_def)

end
